theory Spec2Isabelle
  imports Main
begin

section \<open>The workflow state\<close>

text \<open>
  The Lambda handlers of \<^verbatim>\<open>src/lambda/handler.py\<close> thread a JSON object (a Python
  dict) through every invocation. A key that may be absent is an option field: reading
  an absent key with \<^verbatim>\<open>event['k']\<close> raises KeyError, reading it with
  \<^verbatim>\<open>event.get('k')\<close> gives None. The key \<^verbatim>\<open>'next'\<close> is the field \<open>next'\<close>
  (\<open>next\<close> is a keyword of the proof language). Check-in times are values of any type
  \<open>'t\<close>; the handlers never inspect them.
\<close>

record 't check_in_times =
  remaining :: "'t list option"
  next' :: "'t option"

record 't event =
  first_name :: "string option"
  last_name :: "string option"
  confirmation_number :: "string option"
  email :: "string option"
  check_in_times :: "'t check_in_times option"

section \<open>Exceptions, effects and outcomes\<close>

text \<open>
  What a handler can raise: the KeyError and IndexError of Python's own dict and list
  operations, the handler's continuation signal \<^verbatim>\<open>exceptions.NotLastCheckIn\<close>
  (raised at one place only, the last line of \<^verbatim>\<open>check_in\<close>), and whatever a function
  of \<^verbatim>\<open>lib.swa\<close>, \<^verbatim>\<open>lib.email\<close> or boto3 raises. The exceptions of those libraries
  are values of a type \<open>'x\<close> of their own, all of them instances of Python's
  \<^verbatim>\<open>Exception\<close>: a library failure is \<open>Raised x\<close> and never the continuation signal.
\<close>

datatype 'x error = KeyError string | IndexError | NotLastCheckIn | Raised 'x

datatype level = DEBUG | INFO | ERROR

text \<open>
  The observable effects of a handler, in the order they happen: the lines it logs and
  the calls it makes that reach the network.
\<close>

datatype 't effect =
    Log level string
  | Swa_get_reservation string string string
  | Swa_check_in string string string
  | Swa_email_boarding_pass string string string string
  | Sfn_start_execution "string option" "'t event"

text \<open>
  A handler mutates its event in place and then returns or raises. Its outcome is the
  event as the handler left it, the effects, and the value returned (\<open>Inr\<close>) or the
  exception raised (\<open>Inl\<close>).
\<close>

record ('t, 'x, 'a) outcome =
  state :: "'t event"
  trace :: "'t effect list"
  result :: "'x error + 'a"

section \<open>The inbound message\<close>

text \<open>
  The event of \<^verbatim>\<open>receive_email\<close> is the SES notification: a dict with a list
  \<^verbatim>\<open>'Records'\<close>, each record with a dict \<^verbatim>\<open>'ses'\<close>, which has the raw mail under
  \<^verbatim>\<open>'mail'\<close> (a JSON document, of type \<open>'j\<close>). The object that
  \<^verbatim>\<open>email.SesMailNotification\<close> builds from the raw mail has the attributes
  \<^verbatim>\<open>source\<close> and \<^verbatim>\<open>message_id\<close> the handler reads. The dict that
  \<^verbatim>\<open>sfn.start_execution\<close> returns has the keys \<^verbatim>\<open>'executionArn'\<close> and
  \<^verbatim>\<open>'startDate'\<close>; the start date is kept as the text \<^verbatim>\<open>str()\<close> gives for it.
\<close>

record 'j ses_notification =
  mail :: "'j option"

record 'j ses_record =
  ses :: "'j ses_notification option"

record 'j ses_event =
  Records :: "'j ses_record list option"

record 'j ses_msg =
  source :: string
  message_id :: string
  raw :: 'j

record execution =
  executionArn :: "string option"
  startDate :: "string option"

section \<open>The imported modules\<close>

text \<open>
  \<^verbatim>\<open>lib.swa\<close>, \<^verbatim>\<open>lib.email\<close>, boto3 and \<^verbatim>\<open>os\<close> are not part of the handler: the
  functions it calls in them are parameters, each returning a value (\<open>Inr\<close>) or raising
  (\<open>Inl\<close>). \<open>'j\<close> is the type of the JSON documents the reservation API and SES hand
  over. The \<open>str_\<close> fields are Python's \<^verbatim>\<open>str()\<close> on the values the handler formats
  into its log lines with \<^verbatim>\<open>"{}".format\<close>. The client that
  \<^verbatim>\<open>boto3.client('stepfunctions')\<close> returns is used for \<^verbatim>\<open>start_execution\<close> only, whose
  \<^verbatim>\<open>input\<close> is the reservation dict that \<^verbatim>\<open>json.dumps\<close> serialises.
\<close>

record ('j, 't, 'x) modules =
  swa_get_reservation :: "string \<Rightarrow> string \<Rightarrow> string \<Rightarrow> 'x + 'j"
  swa_get_check_in_times_from_reservation :: "'j \<Rightarrow> 'x + 't list"
  swa_check_in :: "string \<Rightarrow> string \<Rightarrow> string \<Rightarrow> 'x + 'j"
  swa_email_boarding_pass :: "string \<Rightarrow> string \<Rightarrow> string \<Rightarrow> string \<Rightarrow> 'x + unit"
  email_SesMailNotification :: "'j \<Rightarrow> 'x + 'j ses_msg"
  email_find_name_and_confirmation_number :: "'j ses_msg \<Rightarrow> 'x + 't event"
  boto3_client :: "string \<Rightarrow> 'x + unit"
  os_getenv :: "string \<Rightarrow> string option"
  sfn_start_execution :: "string option \<Rightarrow> 't event \<Rightarrow> 'x + execution"
  str_json :: "'j \<Rightarrow> string"
  str_exception :: "'x \<Rightarrow> string"
  str_reservation :: "'t event \<Rightarrow> string"
  str_ses_notification :: "'j ses_notification \<Rightarrow> string"

section \<open>schedule\_check\_in\<close>

text \<open>
  Python's \<^verbatim>\<open>list.pop()\<close>: removes and returns the last item; IndexError (here
  \<open>None\<close>) on an empty list.
\<close>

definition pop :: "'a list \<Rightarrow> ('a \<times> 'a list) option" where
  "pop xs = (if xs = [] then None else Some (last xs, butlast xs))"

text \<open>
  \<^verbatim>\<open>schedule_check_in(event, context)\<close>, lines 23-55. With \<^verbatim>\<open>'check_in_times'\<close> in the
  event it pops the last remaining time into \<^verbatim>\<open>'next'\<close> and returns the event. Without,
  it reads the identity, stores an empty \<^verbatim>\<open>check_in_times\<close> dict, looks the reservation
  up, stores the check-in times as \<^verbatim>\<open>'remaining'\<close> and calls itself. The right-hand
  side of the assignment of line 35 is evaluated first, so a failing pop leaves the
  event as it was.
\<close>

function schedule_check_in ::
  "('j, 't, 'x) modules \<Rightarrow> 't event \<Rightarrow> ('t, 'x, 't event) outcome" where
  "schedule_check_in lib ev =
    (case check_in_times ev of
       Some cit \<Rightarrow>
         (case remaining cit of
            None \<Rightarrow> \<lparr>state = ev, trace = [], result = Inl (KeyError ''remaining'')\<rparr>
          | Some q \<Rightarrow>
              (case pop q of
                 None \<Rightarrow> \<lparr>state = ev, trace = [], result = Inl IndexError\<rparr>
               | Some (t, q') \<Rightarrow>
                   (let ev' = ev\<lparr>check_in_times :=
                                  Some (cit\<lparr>remaining := Some q', next' := Some t\<rparr>)\<rparr>
                    in \<lparr>state = ev', trace = [], result = Inr ev'\<rparr>)))
     | None \<Rightarrow>
         (case first_name ev of
            None \<Rightarrow> \<lparr>state = ev, trace = [], result = Inl (KeyError ''first_name'')\<rparr>
          | Some fn \<Rightarrow>
         (case last_name ev of
            None \<Rightarrow> \<lparr>state = ev, trace = [], result = Inl (KeyError ''last_name'')\<rparr>
          | Some ln \<Rightarrow>
         (case confirmation_number ev of
            None \<Rightarrow> \<lparr>state = ev, trace = [],
                      result = Inl (KeyError ''confirmation_number'')\<rparr>
          | Some cn \<Rightarrow>
             (let ev1 = ev\<lparr>check_in_times := Some \<lparr>remaining = None, next' = None\<rparr>\<rparr>;
                  tr1 = [Log INFO (''Looking up reservation '' @ cn @ '' for '' @ fn
                                    @ '' '' @ ln),
                         Swa_get_reservation fn ln cn]
              in case swa_get_reservation lib fn ln cn of
                   Inl x \<Rightarrow> \<lparr>state = ev1, trace = tr1, result = Inl (Raised x)\<rparr>
                 | Inr reservation \<Rightarrow>
                    (let tr2 = tr1 @ [Log DEBUG (''Reservation: ''
                                                  @ str_json lib reservation)]
                     in case swa_get_check_in_times_from_reservation lib reservation of
                          Inl x \<Rightarrow> \<lparr>state = ev1, trace = tr2, result = Inl (Raised x)\<rparr>
                        | Inr planned_times \<Rightarrow>
                           (let ev2 = ev1\<lparr>check_in_times :=
                                           Some \<lparr>remaining = Some planned_times, next' = None\<rparr>\<rparr>;
                                out = schedule_check_in lib ev2
                            in out\<lparr>trace := tr2 @ trace out\<rparr>)))))))"
  by pat_completeness auto
termination
  by (relation "measure (\<lambda>(lib, ev). if check_in_times ev = None then 1 else 0)") auto

declare schedule_check_in.simps [simp del]

section \<open>check\_in\<close>

text \<open>
  \<^verbatim>\<open>check_in(event, context)\<close>, lines 58-93. It reads the identity and the optional
  \<^verbatim>\<open>'email'\<close>, calls \<^verbatim>\<open>swa.check_in\<close> (logging and re-raising whatever that raises),
  mails the boarding pass when \<^verbatim>\<open>email\<close> is truthy (neither None nor the empty string;
  an exception of the mailing is logged and dropped), and raises NotLastCheckIn when
  \<^verbatim>\<open>len(event['check_in_times']['remaining']) > 0\<close>. It returns None otherwise. No
  statement of it assigns to the event.
\<close>

definition check_in :: "('j, 't, 'x) modules \<Rightarrow> 't event \<Rightarrow> ('t, 'x, unit) outcome" where
  "check_in lib ev =
    (case first_name ev of
       None \<Rightarrow> \<lparr>state = ev, trace = [], result = Inl (KeyError ''first_name'')\<rparr>
     | Some fn \<Rightarrow>
    (case last_name ev of
       None \<Rightarrow> \<lparr>state = ev, trace = [], result = Inl (KeyError ''last_name'')\<rparr>
     | Some ln \<Rightarrow>
    (case confirmation_number ev of
       None \<Rightarrow> \<lparr>state = ev, trace = [], result = Inl (KeyError ''confirmation_number'')\<rparr>
     | Some cn \<Rightarrow>
        (let tr1 = [Log INFO (''Checking in '' @ fn @ '' '' @ ln @ '' ('' @ cn @ '')''),
                    Swa_check_in fn ln cn]
         in case swa_check_in lib fn ln cn of
              Inl e \<Rightarrow>
                \<lparr>state = ev,
                 trace = tr1 @ [Log ERROR (''Error checking in: '' @ str_exception lib e)],
                 result = Inl (Raised e)\<rparr>
            | Inr resp \<Rightarrow>
               (let tr2 = tr1 @ [Log INFO (''Checked in '' @ fn @ '' '' @ ln @ ''!''),
                                 Log DEBUG (''Check-in response: '' @ str_json lib resp)];
                    tr3 =
                      (case email ev of
                         None \<Rightarrow> tr2
                       | Some addr \<Rightarrow>
                           if addr = [] then tr2
                           else tr2 @ [Log INFO (''Emailing boarding pass to '' @ addr),
                                       Swa_email_boarding_pass fn ln cn addr]
                                @ (case swa_email_boarding_pass lib fn ln cn addr of
                                     Inl e \<Rightarrow> [Log ERROR (''Error emailing boarding pass: ''
                                                            @ str_exception lib e)]
                                   | Inr _ \<Rightarrow> []))
                in case check_in_times ev of
                     None \<Rightarrow> \<lparr>state = ev, trace = tr3,
                               result = Inl (KeyError ''check_in_times'')\<rparr>
                   | Some cit \<Rightarrow>
                      (case remaining cit of
                         None \<Rightarrow> \<lparr>state = ev, trace = tr3,
                                   result = Inl (KeyError ''remaining'')\<rparr>
                       | Some q \<Rightarrow>
                           if length q > 0
                           then \<lparr>state = ev, trace = tr3, result = Inl NotLastCheckIn\<rparr>
                           else \<lparr>state = ev, trace = tr3, result = Inr ()\<rparr>))))))"

section \<open>receive\_email\<close>

text \<open>Python's \<^verbatim>\<open>str.endswith\<close> and \<^verbatim>\<open>"{}".format\<close> of a value that may be None.\<close>

definition endswith :: "string \<Rightarrow> string \<Rightarrow> bool" where
  "endswith s suf = (length suf \<le> length s \<and> drop (length s - length suf) s = suf)"

definition str_optional :: "string option \<Rightarrow> string" where
  "str_optional v = (case v of None \<Rightarrow> ''None'' | Some s \<Rightarrow> s)"

text \<open>
  \<^verbatim>\<open>receive_email(event, context)\<close>, lines 96-131: the effects, and the value returned
  (\<open>None\<close> for Python's None) or the exception raised.
\<close>

definition receive_email ::
  "('j, 't, 'x) modules \<Rightarrow> 'j ses_event \<Rightarrow> 't effect list \<times> ('x error + execution option)"
  where
  "receive_email lib event =
    (case boto3_client lib ''stepfunctions'' of
       Inl e \<Rightarrow> ([], Inl (Raised e))
     | Inr sfn \<Rightarrow>
    (case Records event of
       None \<Rightarrow> ([], Inl (KeyError ''Records''))
     | Some [] \<Rightarrow> ([], Inl IndexError)
     | Some (record0 # _) \<Rightarrow>
    (case ses record0 of
       None \<Rightarrow> ([], Inl (KeyError ''ses''))
     | Some ses_notification \<Rightarrow>
       (let state_machine_arn = os_getenv lib ''STATE_MACHINE_ARN'';
            tr1 = [Log DEBUG (''State Machine ARN: '' @ str_optional state_machine_arn),
                   Log DEBUG (''SES Notification: ''
                              @ str_ses_notification lib ses_notification)]
        in case mail ses_notification of
             None \<Rightarrow> (tr1, Inl (KeyError ''mail''))
           | Some m \<Rightarrow>
          (case email_SesMailNotification lib m of
             Inl e \<Rightarrow> (tr1, Inl (Raised e))
           | Inr ses_msg \<Rightarrow>
          (case email_find_name_and_confirmation_number lib ses_msg of
             Inl e \<Rightarrow>
               (tr1 @ [Log ERROR (''Error scraping email '' @ message_id ses_msg @ '': ''
                                  @ str_exception lib e)],
                Inr None)
           | Inr found \<Rightarrow>
              (let tr2 = tr1 @ [Log INFO (''Found reservation: ''
                                          @ str_reservation lib found)];
                   reservation =
                     (if \<not> endswith (source ses_msg) ''southwest.com''
                      then found\<lparr>email := Some (source ses_msg)\<rparr>
                      else found);
                   tr3 = tr2 @ [Sfn_start_execution state_machine_arn reservation]
               in case sfn_start_execution lib state_machine_arn reservation of
                    Inl e \<Rightarrow> (tr3, Inl (Raised e))
                  | Inr execution \<Rightarrow>
                 (case startDate execution of
                    None \<Rightarrow> (tr3, Inl (KeyError ''startDate''))
                  | Some started \<Rightarrow>
                     (let tr4 = tr3 @ [Log DEBUG (''State machine started at: ''
                                                  @ started)]
                      in case executionArn execution of
                           None \<Rightarrow> (tr4, Inl (KeyError ''executionArn''))
                         | Some arn \<Rightarrow>
                             (tr4 @ [Log DEBUG (''Execution ARN: '' @ arn)],
                              Inr (Some (execution\<lparr>startDate := None\<rparr>))))))))))))"

section \<open>The orchestrator\<close>

text \<open>
  Modelled from the spec: the durable workflow orchestrator (the Step Functions state
  machine of the deployment, which is not in \<^verbatim>\<open>handler.py\<close>). Sections 2, 4.3 and 6 of
  the specification: one invocation runs the state machine (\<open>schedule_check_in\<close>) and
  hands the state it returns to the executor (\<open>check_in\<close>); the continuation signal
  NotLastCheckIn is routed to a later re-invocation of the pair with the same workflow
  state as input, every other error ends the run as a failure, and a normal return of
  the executor completes the run.
\<close>

datatype 'x signal = Continue | Complete | Failed "'x error"

text \<open>
  Modelled from the spec: one invocation of the pair, as the orchestrator chains the two
  handlers. It gives the state handed on and the signal of the invocation.
\<close>

definition invocation :: "('j, 't, 'x) modules \<Rightarrow> 't event \<Rightarrow> 't event \<times> 'x signal" where
  "invocation lib ev =
    (let planned = schedule_check_in lib ev
     in case result planned of
          Inl e \<Rightarrow> (state planned, Failed e)
        | Inr ev' \<Rightarrow>
            (case result (check_in lib ev') of
               Inl NotLastCheckIn \<Rightarrow> (ev', Continue)
             | Inl e \<Rightarrow> (ev', Failed e)
             | Inr _ \<Rightarrow> (ev', Complete)))"

text \<open>
  The queue a call of \<open>schedule_check_in\<close> pops from: the \<^verbatim>\<open>'remaining'\<close> list of the
  state or, for a state without \<^verbatim>\<open>'check_in_times'\<close>, the list the lookup gives. The
  run is measured by its length.
\<close>

definition queue :: "('j, 't, 'x) modules \<Rightarrow> 't event \<Rightarrow> 't list option" where
  "queue lib ev =
    (case check_in_times ev of
       Some cit \<Rightarrow> remaining cit
     | None \<Rightarrow>
        (case (first_name ev, last_name ev, confirmation_number ev) of
           (Some fn, Some ln, Some cn) \<Rightarrow>
             (case swa_get_reservation lib fn ln cn of
                Inl _ \<Rightarrow> None
              | Inr reservation \<Rightarrow>
                 (case swa_get_check_in_times_from_reservation lib reservation of
                    Inl _ \<Rightarrow> None
                  | Inr q \<Rightarrow> Some q))
         | _ \<Rightarrow> None))"

definition pending :: "('j, 't, 'x) modules \<Rightarrow> 't event \<Rightarrow> nat" where
  "pending lib ev =
    (case queue lib ev of
       None \<Rightarrow> 0
     | Some q \<Rightarrow> if check_in_times ev = None then Suc (length q) else length q)"

text \<open>
  Modelled from the spec: the run of the orchestrator, as the list of the signals of its
  invocations. The reservation system may answer differently at every invocation:
  \<open>libs k\<close> is the modules as they behave during invocation \<open>k\<close>.
\<close>

function run :: "(nat \<Rightarrow> ('j, 't, 'x) modules) \<Rightarrow> nat \<Rightarrow> 't event \<Rightarrow> 'x signal list" where
  "run libs k ev =
    (case invocation (libs k) ev of
       (ev', Continue) \<Rightarrow> Continue # run libs (Suc k) ev'
     | (ev', Complete) \<Rightarrow> [Complete]
     | (ev', Failed e) \<Rightarrow> [Failed e])"
  by pat_completeness auto

text \<open>The runs a trace starts: the arguments of its \<^verbatim>\<open>start_execution\<close> calls.\<close>

definition started :: "'t effect list \<Rightarrow> (string option \<times> 't event) list" where
  "started tr =
    concat (map (\<lambda>eff. case eff of Sfn_start_execution arn inp \<Rightarrow> [(arn, inp)] | _ \<Rightarrow> []) tr)"

text \<open>The reservation lookups of a trace.\<close>

definition lookups :: "'t effect list \<Rightarrow> (string \<times> string \<times> string) list" where
  "lookups tr =
    concat (map (\<lambda>eff. case eff of Swa_get_reservation fn ln cn \<Rightarrow> [(fn, ln, cn)] | _ \<Rightarrow> []) tr)"

section \<open>Sample data\<close>

text \<open>
  A traveller, and modules in which every call succeeds: the reservation has the
  check-in times \<open>[5, 2]\<close> (days from now, descending), and a raw mail is represented by
  its source address.
\<close>

definition traveller :: "nat event" where
  "traveller =
    \<lparr>first_name = Some ''Ada'', last_name = Some ''Lovelace'',
     confirmation_number = Some ''ABC123'', email = None, check_in_times = None\<rparr>"

definition sample_lib :: "(string, nat, string) modules" where
  "sample_lib =
    \<lparr>swa_get_reservation = (\<lambda>fn ln cn. Inr ''itinerary''),
     swa_get_check_in_times_from_reservation = (\<lambda>reservation. Inr [5, 2]),
     swa_check_in = (\<lambda>fn ln cn. Inr ''checked in''),
     swa_email_boarding_pass = (\<lambda>fn ln cn addr. Inr ()),
     email_SesMailNotification =
       (\<lambda>m. Inr \<lparr>source = m, message_id = ''msg-1'', raw = m\<rparr>),
     email_find_name_and_confirmation_number = (\<lambda>msg. Inr traveller),
     boto3_client = (\<lambda>service. Inr ()),
     os_getenv = (\<lambda>name. Some ''arn:check-in''),
     sfn_start_execution =
       (\<lambda>arn inp. Inr \<lparr>executionArn = Some ''arn:execution'',
                        startDate = Some ''2017-01-01''\<rparr>),
     str_json = (\<lambda>j. j),
     str_exception = (\<lambda>e. e),
     str_reservation = (\<lambda>r. ''{}''),
     str_ses_notification = (\<lambda>n. ''{}'')\<rparr>"

text \<open>The SES event of a mail from the given source address.\<close>

definition mail_from :: "string \<Rightarrow> string ses_event" where
  "mail_from src = \<lparr>Records = Some [\<lparr>ses = Some \<lparr>mail = Some src\<rparr>\<rparr>]\<rparr>"

text \<open>
  The traveller's state after the first and after the second invocation, and modules in
  which one call fails.
\<close>

definition after_first :: "nat event" where
  "after_first =
    traveller\<lparr>check_in_times := Some \<lparr>remaining = Some [5], next' = Some 2\<rparr>\<rparr>"

definition after_second :: "nat event" where
  "after_second =
    traveller\<lparr>check_in_times := Some \<lparr>remaining = Some [], next' = Some 5\<rparr>\<rparr>"

definition check_in_down :: "(string, nat, string) modules" where
  "check_in_down = sample_lib\<lparr>swa_check_in := (\<lambda>fn ln cn. Inl ''HTTP 500'')\<rparr>"

definition mailer_down :: "(string, nat, string) modules" where
  "mailer_down =
    sample_lib\<lparr>swa_email_boarding_pass := (\<lambda>fn ln cn addr. Inl ''SMTP 451'')\<rparr>"

definition no_flights :: "(string, nat, string) modules" where
  "no_flights =
    sample_lib\<lparr>swa_get_check_in_times_from_reservation := (\<lambda>reservation. Inr [])\<rparr>"

definition unparsable :: "(string, nat, string) modules" where
  "unparsable =
    sample_lib\<lparr>email_find_name_and_confirmation_number := (\<lambda>msg. Inl ''no match'')\<rparr>"

section \<open>Unfolding the handlers\<close>

lemma schedule_check_in_present:
  "check_in_times ev = Some cit \<Longrightarrow>
   schedule_check_in lib ev =
     (case remaining cit of
        None \<Rightarrow> \<lparr>state = ev, trace = [], result = Inl (KeyError ''remaining'')\<rparr>
      | Some q \<Rightarrow>
          if q = [] then \<lparr>state = ev, trace = [], result = Inl IndexError\<rparr>
          else \<lparr>state = ev\<lparr>check_in_times :=
                              Some (cit\<lparr>remaining := Some (butlast q),
                                        next' := Some (last q)\<rparr>)\<rparr>,
                trace = [],
                result = Inr (ev\<lparr>check_in_times :=
                                    Some (cit\<lparr>remaining := Some (butlast q),
                                              next' := Some (last q)\<rparr>)\<rparr>)\<rparr>)"
  by (subst schedule_check_in.simps) (simp add: pop_def Let_def split: option.splits)

lemma schedule_check_in_planned:
  assumes "check_in_times ev = None"
    and "first_name ev = Some fn" and "last_name ev = Some ln"
    and "confirmation_number ev = Some cn"
    and "swa_get_reservation lib fn ln cn = Inr reservation"
    and "swa_get_check_in_times_from_reservation lib reservation = Inr q"
  shows "schedule_check_in lib ev =
     (let out = schedule_check_in lib
                  (ev\<lparr>check_in_times := Some \<lparr>remaining = Some q, next' = None\<rparr>\<rparr>)
      in out\<lparr>trace := [Log INFO (''Looking up reservation '' @ cn @ '' for '' @ fn
                                    @ '' '' @ ln),
                         Swa_get_reservation fn ln cn,
                         Log DEBUG (''Reservation: '' @ str_json lib reservation)]
                        @ trace out\<rparr>)"
  by (subst schedule_check_in.simps) (simp add: assms Let_def)

lemma schedule_check_in_returns:
  assumes "result (schedule_check_in lib ev) = Inr ev'"
  shows "\<exists>q cit'. queue lib ev = Some q \<and> q \<noteq> [] \<and>
           state (schedule_check_in lib ev) = ev' \<and> check_in_times ev' = Some cit' \<and>
           remaining cit' = Some (butlast q) \<and> next' cit' = Some (last q)"
proof (cases "check_in_times ev")
  case (Some cit)
  with assms show ?thesis
    by (auto simp: schedule_check_in_present queue_def split: option.splits if_splits)
next
  case None
  from assms None obtain fn ln cn r q where
    ident: "first_name ev = Some fn" "last_name ev = Some ln"
      "confirmation_number ev = Some cn"
    and r: "swa_get_reservation lib fn ln cn = Inr r"
    and q: "swa_get_check_in_times_from_reservation lib r = Inr q"
    by (subst (asm) schedule_check_in.simps)
       (auto simp: Let_def split: option.splits sum.splits)
  have "queue lib ev = Some q"
    using None ident r q by (simp add: queue_def)
  with assms schedule_check_in_planned [OF None ident r q] show ?thesis
    by (auto simp: schedule_check_in_present Let_def split: if_splits)
qed

lemma invocation_Continue:
  assumes "invocation lib ev = (ev', Continue)"
  shows "pending lib' ev' < pending lib ev"
proof -
  from assms have r: "result (schedule_check_in lib ev) = Inr ev'"
    by (auto simp: invocation_def Let_def split: sum.splits error.splits)
  from schedule_check_in_returns [OF r] obtain q cit' where
    q: "queue lib ev = Some q" "q \<noteq> []" "check_in_times ev' = Some cit'"
       "remaining cit' = Some (butlast q)"
    by blast
  have "pending lib' ev' = length q - 1"
    using q by (simp add: pending_def queue_def)
  moreover have "length q \<le> pending lib ev"
    using q(1) by (simp add: pending_def)
  ultimately show ?thesis using q(2) by (cases q) auto
qed

termination run
  by (relation "measure (\<lambda>(libs, k, ev). pending (libs k) ev)")
     (auto dest: invocation_Continue [OF sym])

declare run.simps [simp del]

lemma run_Continue:
  "invocation (libs k) ev = (ev', Continue) \<Longrightarrow> run libs k ev = Continue # run libs (Suc k) ev'"
  by (subst run.simps) simp

lemma run_Complete:
  "invocation (libs k) ev = (ev', Complete) \<Longrightarrow> run libs k ev = [Complete]"
  by (subst run.simps) simp

lemma run_Failed:
  "invocation (libs k) ev = (ev', Failed e) \<Longrightarrow> run libs k ev = [Failed e]"
  by (subst run.simps) simp

lemma check_in_checked_in:
  assumes "first_name ev = Some fn" and "last_name ev = Some ln"
    and "confirmation_number ev = Some cn"
    and "swa_check_in lib fn ln cn = Inr resp"
  shows "result (check_in lib ev) =
     (case check_in_times ev of
        None \<Rightarrow> Inl (KeyError ''check_in_times'')
      | Some cit \<Rightarrow>
         (case remaining cit of
            None \<Rightarrow> Inl (KeyError ''remaining'')
          | Some q \<Rightarrow> if q = [] then Inr () else Inl NotLastCheckIn))"
  using assms by (simp add: check_in_def Let_def split: option.splits)

lemma invocation_present:
  assumes "first_name ev = Some fn" and "last_name ev = Some ln"
    and "confirmation_number ev = Some cn"
    and "check_in_times ev = Some cit" and "remaining cit = Some (q @ [t])"
    and "swa_check_in lib fn ln cn = Inr resp"
  shows "invocation lib ev =
     (ev\<lparr>check_in_times := Some (cit\<lparr>remaining := Some q, next' := Some t\<rparr>)\<rparr>,
      if q = [] then Complete else Continue)"
  using assms
    check_in_checked_in [of "ev\<lparr>check_in_times := Some (cit\<lparr>remaining := Some q, next' := Some t\<rparr>)\<rparr>"
      fn ln cn lib resp]
  by (simp add: invocation_def schedule_check_in_present Let_def)

lemma run_present:
  assumes "first_name ev = Some fn" and "last_name ev = Some ln"
    and "confirmation_number ev = Some cn"
    and "check_in_times ev = Some cit" and "remaining cit = Some q" and "q \<noteq> []"
    and "\<forall>i < length q. \<exists>resp. swa_check_in (libs (k + i)) fn ln cn = Inr resp"
  shows "run libs k ev = replicate (length q - 1) Continue @ [Complete]"
  using assms
proof (induction q arbitrary: ev cit k rule: rev_induct)
  case Nil
  then show ?case by simp
next
  case (snoc t q)
  let ?ev' = "ev\<lparr>check_in_times := Some (cit\<lparr>remaining := Some q, next' := Some t\<rparr>)\<rparr>"
  from snoc.prems(7) obtain resp where "swa_check_in (libs k) fn ln cn = Inr resp"
    by fastforce
  with snoc.prems have inv:
    "invocation (libs k) ev = (?ev', if q = [] then Complete else Continue)"
    by (intro invocation_present)
  show ?case
  proof (cases "q = []")
    case True
    with inv show ?thesis by (simp add: run_Complete)
  next
    case False
    have later: "\<forall>i < length q. \<exists>resp. swa_check_in (libs (Suc k + i)) fn ln cn = Inr resp"
      using snoc.prems(7) by (auto dest: spec [of _ "Suc i" for i])
    have "run libs (Suc k) ?ev' = replicate (length q - 1) Continue @ [Complete]"
      by (rule snoc.IH [where cit = "cit\<lparr>remaining := Some q, next' := Some t\<rparr>"])
         (use snoc.prems False later in simp_all)
    moreover from inv False have "run libs k ev = Continue # run libs (Suc k) ?ev'"
      by (simp add: run_Continue)
    ultimately show ?thesis using False
      by (cases q) simp_all
  qed
qed

lemma invocation_planned:
  assumes "check_in_times ev = None"
    and "first_name ev = Some fn" and "last_name ev = Some ln"
    and "confirmation_number ev = Some cn"
    and "swa_get_reservation lib fn ln cn = Inr reservation"
    and "swa_get_check_in_times_from_reservation lib reservation = Inr q"
  shows "invocation lib ev =
           invocation lib (ev\<lparr>check_in_times := Some \<lparr>remaining = Some q, next' = None\<rparr>\<rparr>)"
  by (simp add: invocation_def schedule_check_in_planned [OF assms] Let_def
      split: sum.splits error.splits)

lemma run_planned:
  assumes "check_in_times ev = None"
    and "first_name ev = Some fn" and "last_name ev = Some ln"
    and "confirmation_number ev = Some cn"
    and "swa_get_reservation (libs k) fn ln cn = Inr reservation"
    and "swa_get_check_in_times_from_reservation (libs k) reservation = Inr q"
  shows "run libs k ev =
           run libs k (ev\<lparr>check_in_times := Some \<lparr>remaining = Some q, next' = None\<rparr>\<rparr>)"
  by (subst (1 2) run.simps) (simp add: invocation_planned [OF assms])

section \<open>Facts of the sample data\<close>

lemmas state_defs = traveller_def after_first_def after_second_def

lemma sample_lib_calls:
  "swa_get_reservation sample_lib fn ln cn = Inr ''itinerary''"
  "swa_get_check_in_times_from_reservation sample_lib reservation = Inr [5, 2]"
  "swa_check_in sample_lib fn ln cn = Inr ''checked in''"
  "swa_email_boarding_pass sample_lib fn ln cn addr = Inr ()"
  "str_json sample_lib j = j"
  "str_exception sample_lib e = e"
  by (simp_all add: sample_lib_def)

lemma no_flights_calls:
  "swa_get_reservation no_flights fn ln cn = Inr ''itinerary''"
  "swa_get_check_in_times_from_reservation no_flights reservation = Inr []"
  "swa_check_in no_flights fn ln cn = Inr ''checked in''"
  "str_json no_flights j = j"
  by (simp_all add: no_flights_def sample_lib_def)

lemma sample_lib_mail:
  "boto3_client sample_lib service = Inr ()"
  "os_getenv sample_lib name = Some ''arn:check-in''"
  "email_SesMailNotification sample_lib m = Inr \<lparr>source = m, message_id = ''msg-1'', raw = m\<rparr>"
  "email_find_name_and_confirmation_number sample_lib msg = Inr traveller"
  "sfn_start_execution sample_lib arn inp =
     Inr \<lparr>executionArn = Some ''arn:execution'', startDate = Some ''2017-01-01''\<rparr>"
  by (simp_all add: sample_lib_def)

lemma unparsable_mail:
  "boto3_client unparsable service = Inr ()"
  "email_SesMailNotification unparsable m = Inr \<lparr>source = m, message_id = ''msg-1'', raw = m\<rparr>"
  "email_find_name_and_confirmation_number unparsable msg = Inl ''no match''"
  "str_exception unparsable e = e"
  by (simp_all add: unparsable_def sample_lib_def)

lemma check_in_down_calls:
  "swa_check_in check_in_down fn ln cn = Inl ''HTTP 500''"
  "str_exception check_in_down e = e"
  by (simp_all add: check_in_down_def sample_lib_def)

lemma mailer_down_calls:
  "swa_check_in mailer_down fn ln cn = Inr ''checked in''"
  "swa_email_boarding_pass mailer_down fn ln cn addr = Inl ''SMTP 451''"
  "str_exception mailer_down e = e"
  by (simp_all add: mailer_down_def sample_lib_def)

section \<open>The run: one invocation per opportunity\<close>

text \<open>
  A reservation without check-in times: the lookup gives the empty list, the call that
  \<open>schedule_check_in\<close> makes to itself pops from it, and the first invocation ends in
  IndexError. The run fails; it never signals completion.
\<close>

theorem run_without_opportunities:
  "swa_get_check_in_times_from_reservation no_flights ''itinerary'' = Inr [] \<and>
   result (schedule_check_in no_flights traveller) = Inl IndexError \<and>
   run (\<lambda>k. no_flights) 0 traveller = [Failed IndexError] \<and>
   Complete \<notin> set (run (\<lambda>k. no_flights) 0 traveller)"
proof -
  have "schedule_check_in no_flights traveller =
     (let out = schedule_check_in no_flights
                  (traveller\<lparr>check_in_times := Some \<lparr>remaining = Some [], next' = None\<rparr>\<rparr>)
      in out\<lparr>trace := [Log INFO (''Looking up reservation '' @ ''ABC123'' @ '' for '' @ ''Ada''
                                    @ '' '' @ ''Lovelace''),
                         Swa_get_reservation ''Ada'' ''Lovelace'' ''ABC123'',
                         Log DEBUG (''Reservation: '' @ str_json no_flights ''itinerary'')]
                        @ trace out\<rparr>)"
    by (rule schedule_check_in_planned) (simp_all add: state_defs no_flights_calls)
  then have s: "result (schedule_check_in no_flights traveller) = Inl IndexError"
    by (simp add: schedule_check_in_present Let_def)
  then have "run (\<lambda>k. no_flights) 0 traveller = [Failed IndexError]"
    by (subst run.simps) (simp add: invocation_def Let_def)
  with s show ?thesis by (simp add: no_flights_calls)
qed

text \<open>
  C1, for a reservation with at least one check-in time. A new identity whose lookup
  gives \<open>N \<ge> 1\<close> check-in times, with \<^verbatim>\<open>swa.check_in\<close> succeeding at each of the first
  \<open>N\<close> invocations: the run has exactly \<open>N\<close> invocations, the first \<open>N - 1\<close> signal
  continue and the \<open>N\<close>-th is the first to signal completion.
\<close>

theorem run_performs_N_invocations:
  assumes "check_in_times ev = None"
    and "first_name ev = Some fn" and "last_name ev = Some ln"
    and "confirmation_number ev = Some cn"
    and "swa_get_reservation (libs 0) fn ln cn = Inr reservation"
    and "swa_get_check_in_times_from_reservation (libs 0) reservation = Inr q"
    and "q \<noteq> []"
    and "\<forall>k < length q. \<exists>resp. swa_check_in (libs k) fn ln cn = Inr resp"
  shows "run libs 0 ev = replicate (length q - 1) Continue @ [Complete] \<and>
         length (run libs 0 ev) = length q"
proof -
  have "run libs 0 ev =
          run libs 0 (ev\<lparr>check_in_times := Some \<lparr>remaining = Some q, next' = None\<rparr>\<rparr>)"
    by (rule run_planned [of ev fn ln cn libs 0 reservation q, OF assms(1-6)])
  also have "\<dots> = replicate (length q - 1) Continue @ [Complete]"
    by (rule run_present [where fn = fn and ln = ln and cn = cn and q = q
          and cit = "\<lparr>remaining = Some q, next' = None\<rparr>"])
       (use assms in simp_all)
  finally show ?thesis using assms(7) by (cases q) simp_all
qed

theorem run_performs_N_invocations_witness:
  "swa_get_check_in_times_from_reservation sample_lib ''itinerary'' = Inr [5, 2] \<and>
   run (\<lambda>k. sample_lib) 0 traveller = [Continue, Complete]"
  using run_performs_N_invocations [of traveller "''Ada''" "''Lovelace''" "''ABC123''"
      "\<lambda>k. sample_lib" "''itinerary''" "[5, 2]"]
  by (simp add: state_defs sample_lib_calls)

section \<open>The scenario of two opportunities\<close>

text \<open>
  The lookup gives \<open>[5, 2]\<close>: \<^verbatim>\<open>pop()\<close> takes the last item, so the first invocation puts
  2 (the sooner time) into \<^verbatim>\<open>'next'\<close> and leaves \<open>[5]\<close>, not the other way round.
\<close>

theorem two_opportunities_pop_soonest_first:
  "swa_get_check_in_times_from_reservation sample_lib ''itinerary'' = Inr [5, 2] \<and>
   check_in_times (state (schedule_check_in sample_lib traveller))
     = Some \<lparr>remaining = Some [5], next' = Some 2\<rparr> \<and>
   check_in_times (state (schedule_check_in sample_lib traveller))
     \<noteq> Some \<lparr>remaining = Some [2], next' = Some 5\<rparr>"
proof -
  have "schedule_check_in sample_lib traveller =
     (let out = schedule_check_in sample_lib
                  (traveller\<lparr>check_in_times := Some \<lparr>remaining = Some [5, 2], next' = None\<rparr>\<rparr>)
      in out\<lparr>trace := [Log INFO (''Looking up reservation '' @ ''ABC123'' @ '' for '' @ ''Ada''
                                    @ '' '' @ ''Lovelace''),
                         Swa_get_reservation ''Ada'' ''Lovelace'' ''ABC123'',
                         Log DEBUG (''Reservation: '' @ str_json sample_lib ''itinerary'')]
                        @ trace out\<rparr>)"
    by (rule schedule_check_in_planned) (simp_all add: state_defs sample_lib_calls)
  then show ?thesis
    by (simp add: schedule_check_in_present Let_def sample_lib_calls)
qed

text \<open>
  C2, with the order of the pops as the code has it. For a new identity whose lookup
  gives the list \<open>[later, sooner]\<close>, the first invocation of \<open>schedule_check_in\<close> pops
  \<open>sooner\<close> (the last item) into \<^verbatim>\<open>'next'\<close> and leaves \<open>[later]\<close>, and \<open>check_in\<close> raises
  the continuation signal; the second invocation pops \<open>later\<close> and leaves the empty
  list, and \<open>check_in\<close> returns without raising.
\<close>

theorem two_opportunities_scenario:
  assumes "check_in_times ev = None"
    and "first_name ev = Some fn" and "last_name ev = Some ln"
    and "confirmation_number ev = Some cn"
    and "swa_get_reservation lib fn ln cn = Inr reservation"
    and "swa_get_check_in_times_from_reservation lib reservation = Inr [later, sooner]"
    and "swa_check_in lib fn ln cn = Inr resp"
    and "swa_check_in lib' fn ln cn = Inr resp'"
  shows
    "result (schedule_check_in lib ev) =
       Inr (ev\<lparr>check_in_times := Some \<lparr>remaining = Some [later], next' = Some sooner\<rparr>\<rparr>) \<and>
     result (check_in lib
         (ev\<lparr>check_in_times := Some \<lparr>remaining = Some [later], next' = Some sooner\<rparr>\<rparr>)) =
       Inl NotLastCheckIn \<and>
     result (schedule_check_in lib'
         (ev\<lparr>check_in_times := Some \<lparr>remaining = Some [later], next' = Some sooner\<rparr>\<rparr>)) =
       Inr (ev\<lparr>check_in_times := Some \<lparr>remaining = Some [], next' = Some later\<rparr>\<rparr>) \<and>
     result (check_in lib'
         (ev\<lparr>check_in_times := Some \<lparr>remaining = Some [], next' = Some later\<rparr>\<rparr>)) =
       Inr ()"
proof -
  let ?ev1 = "ev\<lparr>check_in_times := Some \<lparr>remaining = Some [later], next' = Some sooner\<rparr>\<rparr>"
  let ?ev2 = "ev\<lparr>check_in_times := Some \<lparr>remaining = Some [], next' = Some later\<rparr>\<rparr>"
  have "result (schedule_check_in lib ev) = Inr ?ev1"
    by (simp add: schedule_check_in_planned [OF assms(1-6)] schedule_check_in_present Let_def)
  moreover have "result (check_in lib ?ev1) = Inl NotLastCheckIn"
    using check_in_checked_in [of ?ev1 fn ln cn lib resp] assms by simp
  moreover have "result (schedule_check_in lib' ?ev1) = Inr ?ev2"
    by (simp add: schedule_check_in_present)
  moreover have "result (check_in lib' ?ev2) = Inr ()"
    using check_in_checked_in [of ?ev2 fn ln cn lib' resp'] assms by simp
  ultimately show ?thesis by simp
qed

theorem two_opportunities_scenario_witness:
  "swa_get_check_in_times_from_reservation sample_lib ''itinerary'' = Inr [5, 2] \<and>
   result (schedule_check_in sample_lib traveller) = Inr after_first \<and>
   remaining \<lparr>remaining = Some [5::nat], next' = Some 2\<rparr> = Some [5] \<and>
   result (check_in sample_lib after_first) = Inl NotLastCheckIn \<and>
   result (schedule_check_in sample_lib after_first) = Inr after_second \<and>
   result (check_in sample_lib after_second) = Inr ()"
  using two_opportunities_scenario [of traveller "''Ada''" "''Lovelace''" "''ABC123''"
      sample_lib "''itinerary''" 5 2 "''checked in''" sample_lib "''checked in''"]
  by (simp add: state_defs sample_lib_calls)

section \<open>The state machine: plan once, pop one\<close>

text \<open>
  C6. On a bare identity (no \<^verbatim>\<open>'check_in_times'\<close>) whose lookup succeeds with the list
  \<open>q\<close>, \<open>schedule_check_in\<close> looks the reservation up exactly once and then ends, in
  state and in result, exactly as it does on the same identity with
  \<^verbatim>\<open>check_in_times = {'remaining': q}\<close>, a call that makes no lookup; for a non-empty
  \<open>q\<close> that is the one pop of the last item of \<open>q\<close> into \<^verbatim>\<open>'next'\<close>.
\<close>

theorem bare_identity_plans_then_pops:
  assumes "check_in_times ev = None"
    and "first_name ev = Some fn" and "last_name ev = Some ln"
    and "confirmation_number ev = Some cn"
    and "swa_get_reservation lib fn ln cn = Inr reservation"
    and "swa_get_check_in_times_from_reservation lib reservation = Inr q"
  shows "state (schedule_check_in lib ev) =
           state (schedule_check_in lib
             (ev\<lparr>check_in_times := Some \<lparr>remaining = Some q, next' = None\<rparr>\<rparr>)) \<and>
         result (schedule_check_in lib ev) =
           result (schedule_check_in lib
             (ev\<lparr>check_in_times := Some \<lparr>remaining = Some q, next' = None\<rparr>\<rparr>)) \<and>
         lookups (trace (schedule_check_in lib ev)) = [(fn, ln, cn)] \<and>
         lookups (trace (schedule_check_in lib
             (ev\<lparr>check_in_times := Some \<lparr>remaining = Some q, next' = None\<rparr>\<rparr>))) = [] \<and>
         (q \<noteq> [] \<longrightarrow>
            result (schedule_check_in lib ev) =
              Inr (ev\<lparr>check_in_times :=
                         Some \<lparr>remaining = Some (butlast q), next' = Some (last q)\<rparr>\<rparr>))"
  by (simp add: schedule_check_in_planned [OF assms] schedule_check_in_present
      Let_def lookups_def)

theorem bare_identity_plans_then_pops_witness:
  "swa_get_check_in_times_from_reservation sample_lib ''itinerary'' = Inr [5, 2] \<and>
   result (schedule_check_in sample_lib traveller) = Inr after_first \<and>
   result (schedule_check_in sample_lib
     (traveller\<lparr>check_in_times := Some \<lparr>remaining = Some [5, 2], next' = None\<rparr>\<rparr>))
     = Inr after_first \<and>
   lookups (trace (schedule_check_in sample_lib traveller))
     = [(''Ada'', ''Lovelace'', ''ABC123'')]"
  using bare_identity_plans_then_pops [of traveller "''Ada''" "''Lovelace''" "''ABC123''"
      sample_lib "''itinerary''" "[5, 2]"]
  by (auto simp: state_defs sample_lib_calls)

text \<open>
  C7. A call of \<open>schedule_check_in\<close> that returns has popped exactly one item, the last
  one, from a non-empty queue (the \<^verbatim>\<open>'remaining'\<close> list it was given or the list it
  looked up). On the exhausted state (\<^verbatim>\<open>'check_in_times'\<close> present, \<^verbatim>\<open>'remaining'\<close> empty)
  nothing is popped: the call raises IndexError, with no effect, no retry and the
  state unchanged.
\<close>

theorem schedule_check_in_pops_one:
  "(result (schedule_check_in lib ev) = Inr ev' \<longrightarrow>
      (\<exists>q cit'. queue lib ev = Some q \<and> q \<noteq> [] \<and>
         state (schedule_check_in lib ev) = ev' \<and> check_in_times ev' = Some cit' \<and>
         remaining cit' = Some (butlast q) \<and> next' cit' = Some (last q))) \<and>
   (check_in_times ev = Some cit \<and> remaining cit = Some [] \<longrightarrow>
      schedule_check_in lib ev = \<lparr>state = ev, trace = [], result = Inl IndexError\<rparr>)"
  using schedule_check_in_returns [of lib ev ev']
  by (auto simp: schedule_check_in_present)

theorem schedule_check_in_pops_one_witness:
  "result (schedule_check_in sample_lib after_first) = Inr after_second \<and>
   queue sample_lib after_first = Some [5] \<and>
   check_in_times after_second = Some \<lparr>remaining = Some (butlast [5]), next' = Some (last [5])\<rparr> \<and>
   schedule_check_in sample_lib after_second =
     \<lparr>state = after_second, trace = [], result = Inl IndexError\<rparr>"
  using schedule_check_in_pops_one [of sample_lib after_first after_second]
    schedule_check_in_pops_one [of sample_lib after_second _
      "\<lparr>remaining = Some [], next' = Some 5\<rparr>"]
  by (simp add: state_defs sample_lib_calls schedule_check_in_present queue_def)

section \<open>The executor: continuation, failure, notification\<close>

text \<open>
  C3. When \<^verbatim>\<open>swa.check_in\<close> succeeds, \<open>check_in\<close> raises the continuation signal
  NotLastCheckIn exactly when the \<^verbatim>\<open>'remaining'\<close> list it is given (already popped by
  \<open>schedule_check_in\<close>) is non-empty; with an empty list it returns None without
  raising.
\<close>

theorem check_in_continue_iff:
  assumes "first_name ev = Some fn" and "last_name ev = Some ln"
    and "confirmation_number ev = Some cn"
    and "swa_check_in lib fn ln cn = Inr resp"
    and "check_in_times ev = Some cit" and "remaining cit = Some q"
  shows "(result (check_in lib ev) = Inl NotLastCheckIn \<longleftrightarrow> q \<noteq> []) \<and>
         (q = [] \<longrightarrow> result (check_in lib ev) = Inr ())"
  using assms by (simp add: check_in_checked_in)

theorem check_in_continue_iff_witness:
  "swa_check_in sample_lib ''Ada'' ''Lovelace'' ''ABC123'' = Inr ''checked in'' \<and>
   result (check_in sample_lib after_first) = Inl NotLastCheckIn \<and>
   result (check_in sample_lib after_second) = Inr ()"
  using check_in_continue_iff [of after_first "''Ada''" "''Lovelace''" "''ABC123''"
      sample_lib "''checked in''" "\<lparr>remaining = Some [5], next' = Some 2\<rparr>" "[5]"]
    check_in_continue_iff [of after_second "''Ada''" "''Lovelace''" "''ABC123''"
      sample_lib "''checked in''" "\<lparr>remaining = Some [], next' = Some 5\<rparr>" "[]"]
  by (simp add: state_defs sample_lib_calls check_in_down_calls mailer_down_calls)

text \<open>
  C4. When \<^verbatim>\<open>swa.check_in\<close> raises, \<open>check_in\<close> logs the error and raises that same
  exception: the invocation ends with it, whatever \<^verbatim>\<open>'remaining'\<close> holds (the event is
  not even required to have one), no boarding pass is mailed, and the continuation
  signal is not raised.
\<close>

theorem check_in_failure_is_fatal:
  assumes "first_name ev = Some fn" and "last_name ev = Some ln"
    and "confirmation_number ev = Some cn"
    and "swa_check_in lib fn ln cn = Inl e"
  shows "result (check_in lib ev) = Inl (Raised e) \<and>
         result (check_in lib ev) \<noteq> Inl NotLastCheckIn \<and>
         trace (check_in lib ev) =
           [Log INFO (''Checking in '' @ fn @ '' '' @ ln @ '' ('' @ cn @ '')''),
            Swa_check_in fn ln cn,
            Log ERROR (''Error checking in: '' @ str_exception lib e)] \<and>
         state (check_in lib ev) = ev"
  using assms by (simp add: check_in_def Let_def)

theorem check_in_failure_is_fatal_witness:
  "swa_check_in check_in_down ''Ada'' ''Lovelace'' ''ABC123'' = Inl ''HTTP 500'' \<and>
   check_in_times after_first = Some \<lparr>remaining = Some [5], next' = Some 2\<rparr> \<and>
   result (check_in check_in_down after_first) = Inl (Raised ''HTTP 500'') \<and>
   result (check_in check_in_down after_first) \<noteq> Inl NotLastCheckIn"
  using check_in_failure_is_fatal [of after_first "''Ada''" "''Lovelace''" "''ABC123''"
      check_in_down "''HTTP 500''"]
  by (simp add: state_defs sample_lib_calls check_in_down_calls mailer_down_calls)

text \<open>
  C5. With a recipient present (\<^verbatim>\<open>'email'\<close> a non-empty string) and the check-in done, an
  exception of \<^verbatim>\<open>swa.email_boarding_pass\<close> is logged as an error and dropped: \<open>check_in\<close>
  raises no library exception, ends as it does when the mailing succeeds, leaves the
  event (and so the \<^verbatim>\<open>'remaining'\<close> list) as it was, and still raises the continuation
  signal when \<^verbatim>\<open>'remaining'\<close> is non-empty.
\<close>

theorem email_failure_is_swallowed:
  assumes "first_name ev = Some fn" and "last_name ev = Some ln"
    and "confirmation_number ev = Some cn"
    and "swa_check_in lib fn ln cn = Inr resp"
    and "email ev = Some addr" and "addr \<noteq> []"
    and "swa_email_boarding_pass lib fn ln cn addr = Inl e"
  shows "Log ERROR (''Error emailing boarding pass: '' @ str_exception lib e)
           \<in> set (trace (check_in lib ev)) \<and>
         (\<forall>e'. result (check_in lib ev) \<noteq> Inl (Raised e')) \<and>
         result (check_in (lib\<lparr>swa_email_boarding_pass := \<lambda>fn ln cn addr. Inr ()\<rparr>) ev) =
           result (check_in lib ev) \<and>
         state (check_in lib ev) = ev \<and>
         (\<forall>cit q. check_in_times ev = Some cit \<and> remaining cit = Some q \<and> q \<noteq> []
            \<longrightarrow> result (check_in lib ev) = Inl NotLastCheckIn)"
proof -
  have "Log ERROR (''Error emailing boarding pass: '' @ str_exception lib e)
           \<in> set (trace (check_in lib ev))"
    using assms by (simp add: check_in_def Let_def split: option.splits)
  moreover have "state (check_in lib ev) = ev"
    using assms by (simp add: check_in_def Let_def split: option.splits)
  moreover have
    "result (check_in (lib\<lparr>swa_email_boarding_pass := \<lambda>fn ln cn addr. Inr ()\<rparr>) ev) =
       result (check_in lib ev)"
    using assms by (simp add: check_in_checked_in [where resp = resp])
  ultimately show ?thesis
    using assms by (simp add: check_in_checked_in split: option.splits)
qed

theorem email_failure_is_swallowed_witness:
  "swa_email_boarding_pass mailer_down ''Ada'' ''Lovelace'' ''ABC123'' ''friend@example.com''
     = Inl ''SMTP 451'' \<and>
   Log ERROR ''Error emailing boarding pass: SMTP 451''
     \<in> set (trace (check_in mailer_down
                     (after_first\<lparr>email := Some ''friend@example.com''\<rparr>))) \<and>
   state (check_in mailer_down (after_first\<lparr>email := Some ''friend@example.com''\<rparr>))
     = after_first\<lparr>email := Some ''friend@example.com''\<rparr> \<and>
   result (check_in mailer_down (after_first\<lparr>email := Some ''friend@example.com''\<rparr>))
     = Inl NotLastCheckIn"
  using email_failure_is_swallowed
      [of "after_first\<lparr>email := Some ''friend@example.com''\<rparr>"
      "''Ada''" "''Lovelace''" "''ABC123''" mailer_down "''checked in''"
      "''friend@example.com''" "''SMTP 451''"]
  by (simp add: state_defs sample_lib_calls check_in_down_calls mailer_down_calls)

text \<open>
  After the check-in of the first invocation of the sample run, \<^verbatim>\<open>'next'\<close> still holds
  the time 2 that \<open>schedule_check_in\<close> popped: \<open>check_in\<close> has not cleared it.
\<close>

theorem check_in_keeps_next:
  "check_in_times after_first = Some \<lparr>remaining = Some [5], next' = Some 2\<rparr> \<and>
   result (check_in sample_lib after_first) = Inl NotLastCheckIn \<and>
   check_in_times (state (check_in sample_lib after_first))
     = Some \<lparr>remaining = Some [5], next' = Some 2\<rparr> \<and>
   check_in_times (state (check_in sample_lib after_first))
     \<noteq> Some \<lparr>remaining = Some [5], next' = None\<rparr>"
  by (simp add: state_defs sample_lib_calls check_in_down_calls mailer_down_calls check_in_def)

text \<open>
  C8, as the code has it. \<open>check_in\<close> assigns to no key of the event: whatever the
  attempt does, the state it leaves is the state it was given, with
  \<^verbatim>\<open>check_in_times['next']\<close> still holding the time that \<open>schedule_check_in\<close> popped.
\<close>

theorem check_in_leaves_state:
  "state (check_in lib ev) = ev"
  by (simp add: check_in_def Let_def split: option.splits sum.splits)

section \<open>The inbound trigger\<close>

text \<open>
  C9. When \<^verbatim>\<open>email.find_name_and_confirmation_number\<close> raises, \<open>receive_email\<close> logs the
  error and returns None: the exception does not reach the caller, and
  \<^verbatim>\<open>start_execution\<close> is not called.
\<close>

theorem receive_email_extraction_failure:
  assumes "boto3_client lib ''stepfunctions'' = Inr sfn"
    and "Records event = Some (record0 # records)"
    and "ses record0 = Some ses_notification"
    and "mail ses_notification = Some m"
    and "email_SesMailNotification lib m = Inr ses_msg"
    and "email_find_name_and_confirmation_number lib ses_msg = Inl e"
  shows "snd (receive_email lib event) = Inr None \<and>
         fst (receive_email lib event) =
           [Log DEBUG (''State Machine ARN: ''
                       @ str_optional (os_getenv lib ''STATE_MACHINE_ARN'')),
            Log DEBUG (''SES Notification: '' @ str_ses_notification lib ses_notification),
            Log ERROR (''Error scraping email '' @ message_id ses_msg @ '': ''
                       @ str_exception lib e)] \<and>
         started (fst (receive_email lib event)) = []"
  using assms by (simp add: receive_email_def Let_def started_def)

theorem receive_email_extraction_failure_witness:
  "email_find_name_and_confirmation_number unparsable
     \<lparr>source = ''friend@example.com'', message_id = ''msg-1'', raw = ''friend@example.com''\<rparr>
     = Inl ''no match'' \<and>
   snd (receive_email unparsable (mail_from ''friend@example.com'')) = Inr None \<and>
   Log ERROR ''Error scraping email msg-1: no match''
     \<in> set (fst (receive_email unparsable (mail_from ''friend@example.com''))) \<and>
   started (fst (receive_email unparsable (mail_from ''friend@example.com''))) = []"
  using receive_email_extraction_failure [of unparsable "()" "mail_from ''friend@example.com''"
      "\<lparr>ses = Some \<lparr>mail = Some ''friend@example.com''\<rparr>\<rparr>" "[]"
      "\<lparr>mail = Some ''friend@example.com''\<rparr>" "''friend@example.com''"
      "\<lparr>source = ''friend@example.com'', message_id = ''msg-1'', raw = ''friend@example.com''\<rparr>"
      "''no match''"]
  by (auto simp: mail_from_def unparsable_mail started_def)

text \<open>
  C10. \<open>receive_email\<close> starts one run, whose input is the extracted reservation, with
  \<^verbatim>\<open>'email'\<close> set to the source of the message unless that source ends with
  \<^verbatim>\<open>southwest.com\<close>: a message from \<^verbatim>\<open>noreply@southwest.com\<close> starts the run with the
  reservation as extracted, one from \<^verbatim>\<open>friend@example.com\<close> with
  \<^verbatim>\<open>email = friend@example.com\<close>.
\<close>

theorem receive_email_notify_recipient:
  assumes "boto3_client lib ''stepfunctions'' = Inr sfn"
    and "Records event = Some (record0 # records)"
    and "ses record0 = Some ses_notification"
    and "mail ses_notification = Some m"
    and "email_SesMailNotification lib m = Inr ses_msg"
    and "email_find_name_and_confirmation_number lib ses_msg = Inr found"
  shows "started (fst (receive_email lib event)) =
           [(os_getenv lib ''STATE_MACHINE_ARN'',
             if endswith (source ses_msg) ''southwest.com'' then found
             else found\<lparr>email := Some (source ses_msg)\<rparr>)] \<and>
         (source ses_msg = ''noreply@southwest.com'' \<longrightarrow>
            map snd (started (fst (receive_email lib event))) = [found]) \<and>
         (source ses_msg = ''friend@example.com'' \<longrightarrow>
            map snd (started (fst (receive_email lib event))) =
              [found\<lparr>email := Some ''friend@example.com''\<rparr>])"
proof -
  have "started (fst (receive_email lib event)) =
           [(os_getenv lib ''STATE_MACHINE_ARN'',
             if endswith (source ses_msg) ''southwest.com'' then found
             else found\<lparr>email := Some (source ses_msg)\<rparr>)]"
    using assms
    by (simp add: receive_email_def Let_def started_def split: sum.splits option.splits)
  moreover have "endswith ''noreply@southwest.com'' ''southwest.com''"
    by (simp add: endswith_def)
  moreover have "\<not> endswith ''friend@example.com'' ''southwest.com''"
    by (simp add: endswith_def)
  ultimately show ?thesis by simp
qed

theorem receive_email_notify_recipient_witness:
  "email traveller = None \<and>
   map (email \<circ> snd) (started (fst (receive_email sample_lib (mail_from ''noreply@southwest.com''))))
     = [None] \<and>
   map (email \<circ> snd) (started (fst (receive_email sample_lib (mail_from ''friend@example.com''))))
     = [Some ''friend@example.com'']"
  using receive_email_notify_recipient [of sample_lib "()" "mail_from ''noreply@southwest.com''"
      "\<lparr>ses = Some \<lparr>mail = Some ''noreply@southwest.com''\<rparr>\<rparr>" "[]"
      "\<lparr>mail = Some ''noreply@southwest.com''\<rparr>" "''noreply@southwest.com''"
      "\<lparr>source = ''noreply@southwest.com'', message_id = ''msg-1'',
        raw = ''noreply@southwest.com''\<rparr>" traveller]
    receive_email_notify_recipient [of sample_lib "()" "mail_from ''friend@example.com''"
      "\<lparr>ses = Some \<lparr>mail = Some ''friend@example.com''\<rparr>\<rparr>" "[]"
      "\<lparr>mail = Some ''friend@example.com''\<rparr>" "''friend@example.com''"
      "\<lparr>source = ''friend@example.com'', message_id = ''msg-1'',
        raw = ''friend@example.com''\<rparr>" traveller]
  by (auto simp: mail_from_def sample_lib_mail traveller_def endswith_def)

end
